theory Spec2Isabelle
  imports Complex_Main "HOL-Library.AList"
begin

section \<open>Values of the TypeScript program\<close>

text \<open>
  The program is a Cloudflare Worker (\<^verbatim>\<open>src/index.ts\<close>) that serves a GraphQL schema
  (\<^verbatim>\<open>schema/resolvers.ts\<close>) on top of a wrapper around the OpenAI client
  (\<^verbatim>\<open>services/openai.ts\<close>).

  Conventions of the embedding:
  \<^item> an optional field (\<^verbatim>\<open>model?: string\<close>, a nullable GraphQL argument) is an
    \<open>option\<close>; \<open>None\<close> stands for \<^verbatim>\<open>undefined\<close> and \<^verbatim>\<open>null\<close>, which every test of the
    program (\<^verbatim>\<open>||\<close>, \<^verbatim>\<open>!\<close>, \<^verbatim>\<open>?.\<close>, \<^verbatim>\<open>? :\<close>) treats alike; the one strict test,
    \<^verbatim>\<open>text === undefined\<close>, reads a field whose declared type is \<^verbatim>\<open>string\<close>;
  \<^item> a JavaScript number that the program only tests against zero and passes on is a
    \<open>rat\<close> (temperature, a GraphQL \<^verbatim>\<open>Float\<close>, always finite) or an \<open>int\<close> (token counts and
    timestamps, GraphQL \<^verbatim>\<open>Int\<close>); no arithmetic is performed on either;
  \<^item> a thrown value is a \<open>thrown\<close>; an \<^verbatim>\<open>async\<close> function that may reject returns
    \<open>thrown + 'a\<close>, with \<open>Inl\<close> for the rejection;
  \<^item> the outside world is passed explicitly: the state \<open>'s\<close> of the provider, which every
    call of the OpenAI client may read and change, and the lines written with
    \<^verbatim>\<open>console.error\<close>.
\<close>

datatype thrown =
    Error string  \<comment> \<open>an instance of \<^verbatim>\<open>Error\<close>, with its \<^verbatim>\<open>message\<close>\<close>
  | NonError      \<comment> \<open>any other thrown value\<close>

text \<open>\<^verbatim>\<open>error instanceof Error ? error.message : 'Unknown error'\<close>\<close>

definition message_of :: "thrown \<Rightarrow> string" where
  "message_of error = (case error of Error m \<Rightarrow> m | NonError \<Rightarrow> ''Unknown error'')"

text \<open>
  \<^verbatim>\<open>a || b\<close> yields \<^verbatim>\<open>b\<close> when \<^verbatim>\<open>a\<close> is falsy. For a string that is \<^verbatim>\<open>undefined\<close>,
  \<^verbatim>\<open>null\<close> and the empty string; for a number it is \<^verbatim>\<open>undefined\<close>, \<^verbatim>\<open>null\<close> and zero.
\<close>

definition falsy_string :: "string option \<Rightarrow> bool" where
  "falsy_string a = (case a of None \<Rightarrow> True | Some s \<Rightarrow> s = [])"

definition falsy_number :: "'a::zero option \<Rightarrow> bool" where
  "falsy_number a = (case a of None \<Rightarrow> True | Some n \<Rightarrow> n = 0)"

definition or_string :: "string option \<Rightarrow> string \<Rightarrow> string" where
  "or_string a b = (if falsy_string a then b else the a)"

definition or_number :: "'a::zero option \<Rightarrow> 'a \<Rightarrow> 'a" where
  "or_number a b = (if falsy_number a then b else the a)"

record 's world =
  provider :: 's
  console :: "(string \<times> thrown) list"

text \<open>\<^verbatim>\<open>console.error(label, error)\<close>\<close>

definition console_error :: "string \<Rightarrow> thrown \<Rightarrow> 's world \<Rightarrow> 's world" where
  "console_error label error w = w\<lparr>console := console w @ [(label, error)]\<rparr>"

section \<open>The types of \<^verbatim>\<open>types/index.ts\<close>\<close>

record Env =
  OPENAI_API_KEY :: "string option"
  ENVIRONMENT :: "string option"

record ChatMessage =
  role :: string
  content :: string

record ChatInput =
  messages :: "ChatMessage list"
  model :: "string option"
  temperature :: "rat option"
  maxTokens :: "int option"

record CompletionInput =
  prompt :: string
  model :: "string option"
  maxTokens :: "int option"
  temperature :: "rat option"

record Usage =
  promptTokens :: int
  completionTokens :: int
  totalTokens :: int

record ChatResponse =
  message :: ChatMessage
  model :: string
  usage :: "Usage option"

record CompletionResponse =
  "text" :: string
  model :: string
  usage :: "Usage option"

record Model =
  id' :: string
  object :: string
  created :: int
  ownedBy :: string

section \<open>The OpenAI client, as the program uses it\<close>

text \<open>
  The client comes from the \<^verbatim>\<open>openai\<close> package. The records below hold the fields of its
  requests and responses that the program writes and reads. A first choice may lack its
  \<^verbatim>\<open>message\<close> or its \<^verbatim>\<open>text\<close>, the content of a message may be \<^verbatim>\<open>null\<close>, and \<^verbatim>\<open>usage\<close>
  may be missing: the program tests each of them.
\<close>

record ChatCompletionCreateParams =
  model :: string
  messages :: "ChatMessage list"
  temperature :: rat
  max_tokens :: int

record CompletionCreateParams =
  model :: string
  prompt :: string
  max_tokens :: int
  temperature :: rat

record CompletionUsage =
  prompt_tokens :: int
  completion_tokens :: int
  total_tokens :: int

record ChatCompletionMessage =
  role :: string
  content :: "string option"

record ChatCompletionChoice =
  message :: "ChatCompletionMessage option"

record ChatCompletion =
  choices :: "ChatCompletionChoice list"
  model :: string
  usage :: "CompletionUsage option"

record CompletionChoice =
  "text" :: "string option"

record Completion =
  choices :: "CompletionChoice list"
  model :: string
  usage :: "CompletionUsage option"

record ProviderModel =
  id' :: string
  object :: string
  created :: int
  owned_by :: string

text \<open>
  The three calls the program makes on the client. Each is one request to the provider:
  it takes the provider's state and returns the response, or the value it throws,
  together with the state the request leaves behind.
\<close>

record 's OpenAI =
  chat_completions_create ::
    "ChatCompletionCreateParams \<Rightarrow> 's \<Rightarrow> (thrown + ChatCompletion) \<times> 's"
  completions_create ::
    "CompletionCreateParams \<Rightarrow> 's \<Rightarrow> (thrown + Completion) \<times> 's"
  models_list :: "'s \<Rightarrow> (thrown + ProviderModel list) \<times> 's"

section \<open>\<^verbatim>\<open>services/openai.ts\<close>: the class \<^verbatim>\<open>OpenAIService\<close>\<close>

record 's OpenAIService =
  client :: "'s OpenAI"

text \<open>\<^verbatim>\<open>response.usage ? {promptTokens: ..., ...} : undefined\<close>, the same in both operations.\<close>

definition map_usage :: "CompletionUsage option \<Rightarrow> Usage option" where
  "map_usage response_usage =
     (case response_usage of
        None \<Rightarrow> None
      | Some u \<Rightarrow>
          Some \<lparr>promptTokens = prompt_tokens u,
                completionTokens = completion_tokens u,
                totalTokens = total_tokens u\<rparr>)"

subsection \<open>\<^verbatim>\<open>chat\<close>\<close>

definition chat_params :: "ChatInput \<Rightarrow> ChatCompletionCreateParams" where
  "chat_params input =
     \<lparr>ChatCompletionCreateParams.model = or_string (ChatInput.model input) ''gpt-3.5-turbo'',
      ChatCompletionCreateParams.messages = ChatInput.messages input,
      ChatCompletionCreateParams.temperature = or_number (ChatInput.temperature input) 0.7,
      ChatCompletionCreateParams.max_tokens = or_number (ChatInput.maxTokens input) 1000\<rparr>"

text \<open>The statements after the call: \<^verbatim>\<open>response.choices[0]?.message\<close>, the test, the result.\<close>

definition chat_result :: "ChatCompletion \<Rightarrow> thrown + ChatResponse" where
  "chat_result response =
     (case (case ChatCompletion.choices response of
              [] \<Rightarrow> None
            | choice # _ \<Rightarrow> ChatCompletionChoice.message choice) of
        None \<Rightarrow> Inl (Error ''No message in response'')
      | Some msg \<Rightarrow>
          Inr \<lparr>ChatResponse.message =
                 \<lparr>ChatMessage.role = ChatCompletionMessage.role msg,
                  ChatMessage.content = or_string (ChatCompletionMessage.content msg) ''''\<rparr>,
               ChatResponse.model = ChatCompletion.model response,
               ChatResponse.usage = map_usage (ChatCompletion.usage response)\<rparr>)"

text \<open>The body of the \<^verbatim>\<open>try\<close> block.\<close>

definition chat_try ::
  "'s OpenAIService \<Rightarrow> ChatInput \<Rightarrow> 's world \<Rightarrow> (thrown + ChatResponse) \<times> 's world" where
  "chat_try this input w =
     (case chat_completions_create (client this) (chat_params input) (provider w) of
        (Inl error, p) \<Rightarrow> (Inl error, w\<lparr>provider := p\<rparr>)
      | (Inr response, p) \<Rightarrow> (chat_result response, w\<lparr>provider := p\<rparr>))"

text \<open>The whole method: whatever the \<^verbatim>\<open>try\<close> block throws is logged and thrown again, wrapped.\<close>

definition chat ::
  "'s OpenAIService \<Rightarrow> ChatInput \<Rightarrow> 's world \<Rightarrow> (thrown + ChatResponse) \<times> 's world" where
  "chat this input w =
     (case chat_try this input w of
        (Inr result, w') \<Rightarrow> (Inr result, w')
      | (Inl error, w') \<Rightarrow>
          (Inl (Error (''Failed to generate chat response: '' @ message_of error)),
           console_error ''OpenAI Chat Error:'' error w'))"

subsection \<open>\<^verbatim>\<open>completion\<close>\<close>

definition completion_params :: "CompletionInput \<Rightarrow> CompletionCreateParams" where
  "completion_params input =
     \<lparr>CompletionCreateParams.model =
        or_string (CompletionInput.model input) ''gpt-3.5-turbo-instruct'',
      CompletionCreateParams.prompt = CompletionInput.prompt input,
      CompletionCreateParams.max_tokens = or_number (CompletionInput.maxTokens input) 1000,
      CompletionCreateParams.temperature = or_number (CompletionInput.temperature input) 0.7\<rparr>"

text \<open>\<^verbatim>\<open>response.choices[0]?.text\<close>, then \<^verbatim>\<open>text === undefined\<close>.\<close>

definition completion_result :: "Completion \<Rightarrow> thrown + CompletionResponse" where
  "completion_result response =
     (case (case Completion.choices response of
              [] \<Rightarrow> None
            | choice # _ \<Rightarrow> CompletionChoice.text choice) of
        None \<Rightarrow> Inl (Error ''No text in response'')
      | Some txt \<Rightarrow>
          Inr \<lparr>CompletionResponse.text = txt,
               CompletionResponse.model = Completion.model response,
               CompletionResponse.usage = map_usage (Completion.usage response)\<rparr>)"

definition completion_try ::
  "'s OpenAIService \<Rightarrow> CompletionInput \<Rightarrow> 's world \<Rightarrow>
     (thrown + CompletionResponse) \<times> 's world" where
  "completion_try this input w =
     (case completions_create (client this) (completion_params input) (provider w) of
        (Inl error, p) \<Rightarrow> (Inl error, w\<lparr>provider := p\<rparr>)
      | (Inr response, p) \<Rightarrow> (completion_result response, w\<lparr>provider := p\<rparr>))"

definition completion ::
  "'s OpenAIService \<Rightarrow> CompletionInput \<Rightarrow> 's world \<Rightarrow>
     (thrown + CompletionResponse) \<times> 's world" where
  "completion this input w =
     (case completion_try this input w of
        (Inr result, w') \<Rightarrow> (Inr result, w')
      | (Inl error, w') \<Rightarrow>
          (Inl (Error (''Failed to generate completion: '' @ message_of error)),
           console_error ''OpenAI Completion Error:'' error w'))"

subsection \<open>\<^verbatim>\<open>getModels\<close>\<close>

definition map_model :: "ProviderModel \<Rightarrow> Model" where
  "map_model m =
     \<lparr>Model.id' = ProviderModel.id' m,
      Model.object = ProviderModel.object m,
      Model.created = ProviderModel.created m,
      Model.ownedBy = ProviderModel.owned_by m\<rparr>"

definition getModels_try ::
  "'s OpenAIService \<Rightarrow> 's world \<Rightarrow> (thrown + Model list) \<times> 's world" where
  "getModels_try this w =
     (case models_list (client this) (provider w) of
        (Inl error, p) \<Rightarrow> (Inl error, w\<lparr>provider := p\<rparr>)
      | (Inr data, p) \<Rightarrow> (Inr (map map_model data), w\<lparr>provider := p\<rparr>))"

definition getModels ::
  "'s OpenAIService \<Rightarrow> 's world \<Rightarrow> (thrown + Model list) \<times> 's world" where
  "getModels this w =
     (case getModels_try this w of
        (Inr result, w') \<Rightarrow> (Inr result, w')
      | (Inl error, w') \<Rightarrow>
          (Inl (Error (''Failed to fetch models: '' @ message_of error)),
           console_error ''OpenAI Models Error:'' error w'))"

subsection \<open>\<^verbatim>\<open>createOpenAIService\<close>\<close>

text \<open>
  \<^verbatim>\<open>new OpenAI({apiKey})\<close> belongs to the package; it is the parameter \<open>new_OpenAI\<close>, which
  may throw. The constructor of \<^verbatim>\<open>OpenAIService\<close> stores the client it returns.
\<close>

definition new_OpenAIService ::
  "(string \<Rightarrow> thrown + 's OpenAI) \<Rightarrow> string \<Rightarrow> thrown + 's OpenAIService" where
  "new_OpenAIService new_OpenAI apiKey =
     (case new_OpenAI apiKey of
        Inl error \<Rightarrow> Inl error
      | Inr c \<Rightarrow> Inr \<lparr>client = c\<rparr>)"

definition createOpenAIService ::
  "(string \<Rightarrow> thrown + 's OpenAI) \<Rightarrow> Env \<Rightarrow> thrown + 's OpenAIService" where
  "createOpenAIService new_OpenAI env =
     (if falsy_string (OPENAI_API_KEY env)
      then Inl (Error ''OPENAI_API_KEY is not configured'')
      else new_OpenAIService new_OpenAI (the (OPENAI_API_KEY env)))"

section \<open>\<^verbatim>\<open>schema/resolvers.ts\<close>\<close>

text \<open>
  The GraphQL engine calls a resolver with the parent value, the arguments and the context.
  No resolver reads the parent; \<open>input\<close> below is \<^verbatim>\<open>args.input\<close>. The resolver of \<^verbatim>\<open>health\<close>
  declares no parameter at all and so ignores the context it is called with.
\<close>

record 's Context =
  openai :: "'s OpenAIService"

definition Query_health :: "'s Context \<Rightarrow> 's world \<Rightarrow> (thrown + string) \<times> 's world" where
  "Query_health ctx w = (Inr ''OK'', w)"

definition Query_models :: "'s Context \<Rightarrow> 's world \<Rightarrow> (thrown + Model list) \<times> 's world" where
  "Query_models ctx w = getModels (openai ctx) w"

definition Mutation_chat ::
  "ChatInput \<Rightarrow> 's Context \<Rightarrow> 's world \<Rightarrow> (thrown + ChatResponse) \<times> 's world" where
  "Mutation_chat input ctx w = chat (openai ctx) input w"

definition Mutation_completion ::
  "CompletionInput \<Rightarrow> 's Context \<Rightarrow> 's world \<Rightarrow>
     (thrown + CompletionResponse) \<times> 's world" where
  "Mutation_completion input ctx w = completion (openai ctx) input w"

section \<open>\<^verbatim>\<open>schema/typeDefs.ts\<close> and the response to a failed root field\<close>

text \<open>
  The type definitions declare the mutation as \<^verbatim>\<open>chat(input: ChatInput!): ChatResponse!\<close>:
  the type of the field \<^verbatim>\<open>chat\<close> is non-null.
\<close>

datatype nullability = Nullable | NonNull

definition Mutation_chat_type :: nullability where
  "Mutation_chat_type = NonNull"

text \<open>
  The response to an operation has the entries \<^verbatim>\<open>data\<close> and \<^verbatim>\<open>errors\<close>. For an operation
  that selects one root field, \<^verbatim>\<open>data\<close> is \<^verbatim>\<open>null\<close> or an object holding that field, which
  is \<^verbatim>\<open>null\<close> or a value.
\<close>

datatype 'a response_data =
    NullData               \<comment> \<open>\<^verbatim>\<open>"data": null\<close>\<close>
  | FieldData "'a option"  \<comment> \<open>\<^verbatim>\<open>"data": {"chat": null}\<close> or \<^verbatim>\<open>"data": {"chat": {...}}\<close>\<close>

record 'a ExecutionResult =
  data_entry :: "'a response_data"
  errors_entry :: "string list"

text \<open>
  The engine that graphql-yoga runs follows the GraphQL specification (section 6.4.4,
  Handling Field Errors). When the resolver of a field throws, an entry is added to
  \<^verbatim>\<open>errors\<close> and the field becomes \<^verbatim>\<open>null\<close>; when the type of the field is non-null, the
  \<^verbatim>\<open>null\<close> moves up to the parent instead, and above a root field the parent is \<^verbatim>\<open>data\<close>.
  How the engine words the entry (graphql-yoga masks the message of an error that is no
  \<^verbatim>\<open>GraphQLError\<close>) is the parameter \<open>format\<close>.
\<close>

definition complete_root_field ::
  "nullability \<Rightarrow> (thrown \<Rightarrow> string) \<Rightarrow> thrown + 'a \<Rightarrow> 'a ExecutionResult" where
  "complete_root_field field_type format outcome =
     (case outcome of
        Inr v \<Rightarrow> \<lparr>data_entry = FieldData (Some v), errors_entry = []\<rparr>
      | Inl error \<Rightarrow>
          \<lparr>data_entry =
             (case field_type of Nullable \<Rightarrow> FieldData None | NonNull \<Rightarrow> NullData),
           errors_entry = [format error]\<rparr>)"

text \<open>The operation \<^verbatim>\<open>mutation { chat(input: ...) { ... } }\<close>: its one root field runs the resolver.\<close>

definition execute_chat ::
  "(thrown \<Rightarrow> string) \<Rightarrow> ChatInput \<Rightarrow> 's Context \<Rightarrow> 's world \<Rightarrow>
     ChatResponse ExecutionResult \<times> 's world" where
  "execute_chat format input ctx w =
     (case Mutation_chat input ctx w of
        (outcome, w') \<Rightarrow> (complete_root_field Mutation_chat_type format outcome, w'))"

section \<open>Requests, responses and headers of the Fetch API\<close>

text \<open>
  A \<^verbatim>\<open>Headers\<close> object holds one value for each name and compares names without regard to
  case: it stores them in lower case. \<^verbatim>\<open>set\<close> replaces the value of a name, \<^verbatim>\<open>append\<close>
  joins a further value to the present one, and the constructor appends each entry of its
  argument.
\<close>

type_synonym Headers = "(string \<times> string) list"

definition lower_char :: "char \<Rightarrow> char" where
  "lower_char c =
     (case map_of (zip ''ABCDEFGHIJKLMNOPQRSTUVWXYZ'' ''abcdefghijklmnopqrstuvwxyz'') c of
        None \<Rightarrow> c
      | Some l \<Rightarrow> l)"

definition Headers_get :: "Headers \<Rightarrow> string \<Rightarrow> string option" where
  "Headers_get h name = map_of h (map lower_char name)"

definition Headers_set :: "Headers \<Rightarrow> string \<Rightarrow> string \<Rightarrow> Headers" where
  "Headers_set h name v = AList.update (map lower_char name) v h"

definition Headers_append :: "Headers \<Rightarrow> string \<Rightarrow> string \<Rightarrow> Headers" where
  "Headers_append h name v =
     (case Headers_get h name of
        None \<Rightarrow> h @ [(map lower_char name, v)]
      | Some old \<Rightarrow> AList.update (map lower_char name) (old @ '', '' @ v) h)"

definition new_Headers :: "(string \<times> string) list \<Rightarrow> Headers" where
  "new_Headers init = foldl (\<lambda>h (name, v). Headers_append h name v) [] init"

record Request =
  "method" :: string
  url :: string
  headers :: Headers
  body :: "string option"

record Response =
  status :: nat
  headers :: Headers
  body :: "string option"

text \<open>\<^verbatim>\<open>new Response(body, {status, headers})\<close>\<close>

definition new_Response :: "string option \<Rightarrow> nat \<Rightarrow> (string \<times> string) list \<Rightarrow> Response" where
  "new_Response b st hs =
     \<lparr>Response.status = st, Response.headers = new_Headers hs, Response.body = b\<rparr>"

subsection \<open>\<^verbatim>\<open>JSON.stringify\<close> of an object whose properties are strings\<close>

definition hex_digit :: "nat \<Rightarrow> char" where
  "hex_digit n = ''0123456789abcdef'' ! (n mod 16)"

definition JSON_quote_char :: "char \<Rightarrow> string" where
  "JSON_quote_char c =
     (if c = CHR 0x22 then [CHR 0x5C, CHR 0x22]
      else if c = CHR 0x5C then [CHR 0x5C, CHR 0x5C]
      else if c = CHR 0x08 then [CHR 0x5C, CHR ''b'']
      else if c = CHR 0x0C then [CHR 0x5C, CHR ''f'']
      else if c = CHR 0x0A then [CHR 0x5C, CHR ''n'']
      else if c = CHR 0x0D then [CHR 0x5C, CHR ''r'']
      else if c = CHR 0x09 then [CHR 0x5C, CHR ''t'']
      else if (of_char c :: nat) < 32
        then [CHR 0x5C, CHR ''u'', CHR ''0'', CHR ''0'',
              hex_digit (of_char c div 16), hex_digit (of_char c)]
      else [c])"

definition JSON_quote :: "string \<Rightarrow> string" where
  "JSON_quote s = [CHR 0x22] @ concat (map JSON_quote_char s) @ [CHR 0x22]"

fun JSON_members :: "(string \<times> string) list \<Rightarrow> string" where
  "JSON_members [] = []"
| "JSON_members [(k, v)] = JSON_quote k @ '':'' @ JSON_quote v"
| "JSON_members ((k, v) # kvs) = JSON_quote k @ '':'' @ JSON_quote v @ '','' @ JSON_members kvs"

definition JSON_stringify :: "(string \<times> string) list \<Rightarrow> string" where
  "JSON_stringify obj = ''{'' @ JSON_members obj @ ''}''"

section \<open>\<^verbatim>\<open>index.ts\<close>: the handler \<^verbatim>\<open>fetch\<close>\<close>

text \<open>
  The GraphQL server is graphql-yoga. \<^verbatim>\<open>createYoga(options).fetch(request, {openai})\<close> is
  the parameter \<open>yoga\<close>: it receives the options, the request and the context, runs the
  resolvers of the schema in the world and returns a response, or throws. The schema is the
  one global value built from the type definitions and the resolvers above.
\<close>

record CORSOptions =
  origin :: string
  credentials :: bool
  methods :: "string list"
  allowedHeaders :: "string list"

record 's YogaOptions =
  ctx_option :: "'s Context"
  graphiql :: bool
  cors :: CORSOptions
  landingPage :: bool

type_synonym 's Yoga =
  "'s YogaOptions \<Rightarrow> Request \<Rightarrow> 's Context \<Rightarrow> 's world \<Rightarrow> (thrown + Response) \<times> 's world"

definition corsHeaders :: "(string \<times> string) list" where
  "corsHeaders =
     [(''Access-Control-Allow-Origin'', ''*''),
      (''Access-Control-Allow-Methods'', ''GET, POST, OPTIONS''),
      (''Access-Control-Allow-Headers'', ''Content-Type, Authorization'')]"

text \<open>The argument of \<^verbatim>\<open>createYoga\<close>; \<open>ctx_option\<close> is its property \<^verbatim>\<open>context\<close>.\<close>

definition yoga_options :: "'s OpenAIService \<Rightarrow> Env \<Rightarrow> 's YogaOptions" where
  "yoga_options service env =
     \<lparr>ctx_option = \<lparr>openai = service\<rparr>,
      graphiql = (ENVIRONMENT env = Some ''development'' \<or> falsy_string (ENVIRONMENT env)),
      cors = \<lparr>origin = ''*'', credentials = True,
              methods = [''GET'', ''POST'', ''OPTIONS''],
              allowedHeaders = [''Content-Type'', ''Authorization'']\<rparr>,
      landingPage = False\<rparr>"

text \<open>
  \<^verbatim>\<open>new Response(response.body, response)\<close>, then \<^verbatim>\<open>headers.set\<close> for each entry of
  \<^verbatim>\<open>corsHeaders\<close>.
\<close>

definition add_cors :: "Response \<Rightarrow> Response" where
  "add_cors response =
     (let newResponse =
            new_Response (Response.body response) (Response.status response)
              (Response.headers response)
      in newResponse\<lparr>Response.headers :=
           foldl (\<lambda>h (key, v). Headers_set h key v) (Response.headers newResponse) corsHeaders\<rparr>)"

text \<open>The body of the \<^verbatim>\<open>try\<close> block.\<close>

definition fetch_try ::
  "(string \<Rightarrow> thrown + 's OpenAI) \<Rightarrow> 's Yoga \<Rightarrow> Request \<Rightarrow> Env \<Rightarrow> 's world \<Rightarrow>
     (thrown + Response) \<times> 's world" where
  "fetch_try new_OpenAI yoga request env w =
     (case createOpenAIService new_OpenAI env of
        Inl error \<Rightarrow> (Inl error, w)
      | Inr service \<Rightarrow>
          (case yoga (yoga_options service env) request \<lparr>openai = service\<rparr> w of
             (Inl error, w') \<Rightarrow> (Inl error, w')
           | (Inr response, w') \<Rightarrow> (Inr (add_cors response), w')))"

definition fetch ::
  "(string \<Rightarrow> thrown + 's OpenAI) \<Rightarrow> 's Yoga \<Rightarrow> Request \<Rightarrow> Env \<Rightarrow> 's world \<Rightarrow>
     Response \<times> 's world" where
  "fetch new_OpenAI yoga request env w =
     (if Request.method request = ''OPTIONS''
      then (new_Response None 204 corsHeaders, w)
      else
        (case fetch_try new_OpenAI yoga request env w of
           (Inr response, w') \<Rightarrow> (response, w')
         | (Inl error, w') \<Rightarrow>
             (new_Response
                (Some (JSON_stringify
                   [(''error'', ''Internal Server Error''), (''message'', message_of error)]))
                500
                ((''Content-Type'', ''application/json'') # corsHeaders),
              console_error ''Worker Error:'' error w')))"

section \<open>Observing the requests sent to the provider\<close>

text \<open>
  To state what the service sends upstream, and how often, a client is wrapped so that it
  notes every request it receives: \<open>recording c\<close> answers as \<open>c\<close> does and keeps, next to
  the state of \<open>c\<close>, the list of the requests made so far.
\<close>

datatype request =
    ChatRequest ChatCompletionCreateParams
  | CompletionRequest CompletionCreateParams
  | ModelsRequest

definition recording :: "'s OpenAI \<Rightarrow> ('s \<times> request list) OpenAI" where
  "recording c =
     \<lparr>chat_completions_create =
        (\<lambda>params (s, log).
           case chat_completions_create c params s of
             (r, s') \<Rightarrow> (r, (s', log @ [ChatRequest params]))),
      completions_create =
        (\<lambda>params (s, log).
           case completions_create c params s of
             (r, s') \<Rightarrow> (r, (s', log @ [CompletionRequest params]))),
      models_list =
        (\<lambda>(s, log).
           case models_list c s of
             (r, s') \<Rightarrow> (r, (s', log @ [ModelsRequest])))\<rparr>"

definition requests :: "('s \<times> request list) world \<Rightarrow> request list" where
  "requests w = snd (provider w)"

text \<open>The requests that running \<open>f\<close> in the world \<open>w\<close> adds to the list.\<close>

definition issued_by ::
  "(('s \<times> request list) world \<Rightarrow> 'a \<times> ('s \<times> request list) world) \<Rightarrow>
     ('s \<times> request list) world \<Rightarrow> request list" where
  "issued_by f w = drop (length (requests w)) (requests (snd (f w)))"

fun request_model :: "request \<Rightarrow> string option" where
  "request_model (ChatRequest p) = Some (ChatCompletionCreateParams.model p)"
| "request_model (CompletionRequest p) = Some (CompletionCreateParams.model p)"
| "request_model ModelsRequest = None"

fun request_temperature :: "request \<Rightarrow> rat option" where
  "request_temperature (ChatRequest p) = Some (ChatCompletionCreateParams.temperature p)"
| "request_temperature (CompletionRequest p) = Some (CompletionCreateParams.temperature p)"
| "request_temperature ModelsRequest = None"

fun request_max_tokens :: "request \<Rightarrow> int option" where
  "request_max_tokens (ChatRequest p) = Some (ChatCompletionCreateParams.max_tokens p)"
| "request_max_tokens (CompletionRequest p) = Some (CompletionCreateParams.max_tokens p)"
| "request_max_tokens ModelsRequest = None"

subsection \<open>Concrete clients and inputs\<close>

text \<open>
  \<open>scripted a b c\<close> is a client that answers every chat request with \<open>a\<close>, every completion
  request with \<open>b\<close> and every request for the models with \<open>c\<close>; its state counts the
  requests it has answered.
\<close>

definition scripted ::
  "thrown + ChatCompletion \<Rightarrow> thrown + Completion \<Rightarrow> thrown + ProviderModel list \<Rightarrow> nat OpenAI"
  where
  "scripted a b c =
     \<lparr>chat_completions_create = (\<lambda>params n. (a, Suc n)),
      completions_create = (\<lambda>params n. (b, Suc n)),
      models_list = (\<lambda>n. (c, Suc n))\<rparr>"

definition hello :: ChatInput where
  "hello =
     \<lparr>ChatInput.messages = [\<lparr>ChatMessage.role = ''user'', ChatMessage.content = ''Hello''\<rparr>],
      ChatInput.model = None, ChatInput.temperature = None, ChatInput.maxTokens = None\<rparr>"

definition once :: CompletionInput where
  "once =
     \<lparr>CompletionInput.prompt = ''Once upon a time'', CompletionInput.model = None,
      CompletionInput.maxTokens = None, CompletionInput.temperature = None\<rparr>"

definition hi_there :: ChatCompletion where
  "hi_there =
     \<lparr>ChatCompletion.choices =
        [\<lparr>ChatCompletionChoice.message =
            Some \<lparr>ChatCompletionMessage.role = ''assistant'',
                  ChatCompletionMessage.content = Some ''Hi there''\<rparr>\<rparr>],
      ChatCompletion.model = ''gpt-3.5-turbo'',
      ChatCompletion.usage =
        Some \<lparr>prompt_tokens = 5, completion_tokens = 3, total_tokens = 8\<rparr>\<rparr>"

definition no_choices :: ChatCompletion where
  "no_choices =
     \<lparr>ChatCompletion.choices = [], ChatCompletion.model = ''gpt-3.5-turbo'',
      ChatCompletion.usage = None\<rparr>"

definition empty_text :: Completion where
  "empty_text =
     \<lparr>Completion.choices = [\<lparr>CompletionChoice.text = Some ''''\<rparr>],
      Completion.model = ''gpt-3.5-turbo-instruct'',
      Completion.usage = None\<rparr>"

definition no_text :: Completion where
  "no_text =
     \<lparr>Completion.choices = [\<lparr>CompletionChoice.text = None\<rparr>],
      Completion.model = ''gpt-3.5-turbo-instruct'',
      Completion.usage = None\<rparr>"

definition unreachable :: "nat OpenAI" where
  "unreachable =
     scripted (Inl (Error ''Connection error.'')) (Inl (Error ''Connection error.'')) (Inl NonError)"

definition answering :: "nat OpenAI" where
  "answering = scripted (Inr hi_there) (Inr empty_text) (Inr [])"

definition start :: "nat world" where
  "start = \<lparr>provider = 0, console = []\<rparr>"

definition start_recording :: "(nat \<times> request list) world" where
  "start_recording = \<lparr>provider = (0, []), console = []\<rparr>"

text \<open>
  For the handler: a constructor of the client that succeeds and one that throws, a GraphQL
  server that throws, two requests and two environments.
\<close>

definition connecting :: "string \<Rightarrow> thrown + nat OpenAI" where
  "connecting apiKey = Inr answering"

definition refusing :: "string \<Rightarrow> thrown + nat OpenAI" where
  "refusing apiKey = Inl (Error ''The client cannot be built'')"

text \<open>The wording graphql-yoga gives by default to an error thrown by a resolver.\<close>

definition masked :: "thrown \<Rightarrow> string" where
  "masked error = ''Unexpected error.''"

definition yoga_down :: "nat Yoga" where
  "yoga_down options request ctx w = (Inl (Error ''The server cannot be built''), w)"

definition preflight :: Request where
  "preflight =
     \<lparr>Request.method = ''OPTIONS'', Request.url = ''https://worker.example/graphql'',
      Request.headers = [], Request.body = None\<rparr>"

definition health_query :: Request where
  "health_query =
     \<lparr>Request.method = ''POST'', Request.url = ''https://worker.example/graphql'',
      Request.headers = [(''content-type'', ''application/json'')],
      Request.body = Some ''query { health }''\<rparr>"

definition no_credential :: Env where
  "no_credential = \<lparr>OPENAI_API_KEY = None, ENVIRONMENT = None\<rparr>"

definition empty_marker :: Env where
  "empty_marker = \<lparr>OPENAI_API_KEY = Some ''sk-test'', ENVIRONMENT = Some ''''\<rparr>"

section \<open>How the operations of the service run\<close>

text \<open>
  Each operation makes one call on the client and then decides on the outcome of that call.
  The lemmas below unfold an operation once the outcome \<open>(r, p)\<close> of its call is known.
\<close>

lemma chat_unfold:
  assumes "chat_completions_create (client this) (chat_params ci) (provider w) = (r, p)"
  shows "chat this ci w =
    (case (case r of Inl e \<Rightarrow> Inl e | Inr response \<Rightarrow> chat_result response) of
       Inr result \<Rightarrow> (Inr result, w\<lparr>provider := p\<rparr>)
     | Inl e \<Rightarrow>
         (Inl (Error (''Failed to generate chat response: '' @ message_of e)),
          console_error ''OpenAI Chat Error:'' e (w\<lparr>provider := p\<rparr>)))"
  using assms by (simp add: chat_def chat_try_def split: sum.splits)

lemma completion_unfold:
  assumes "completions_create (client this) (completion_params ti) (provider w) = (r, p)"
  shows "completion this ti w =
    (case (case r of Inl e \<Rightarrow> Inl e | Inr response \<Rightarrow> completion_result response) of
       Inr result \<Rightarrow> (Inr result, w\<lparr>provider := p\<rparr>)
     | Inl e \<Rightarrow>
         (Inl (Error (''Failed to generate completion: '' @ message_of e)),
          console_error ''OpenAI Completion Error:'' e (w\<lparr>provider := p\<rparr>)))"
  using assms by (simp add: completion_def completion_try_def split: sum.splits)

lemma getModels_unfold:
  assumes "models_list (client this) (provider w) = (r, p)"
  shows "getModels this w =
    (case r of
       Inr data \<Rightarrow> (Inr (map map_model data), w\<lparr>provider := p\<rparr>)
     | Inl e \<Rightarrow>
         (Inl (Error (''Failed to fetch models: '' @ message_of e)),
          console_error ''OpenAI Models Error:'' e (w\<lparr>provider := p\<rparr>)))"
  using assms by (simp add: getModels_def getModels_try_def split: sum.splits)

lemma provider_chat:
  "provider (snd (chat this ci w)) =
     snd (chat_completions_create (client this) (chat_params ci) (provider w))"
  by (cases "chat_completions_create (client this) (chat_params ci) (provider w)")
     (simp add: chat_unfold console_error_def split: sum.splits)

lemma provider_completion:
  "provider (snd (completion this ti w)) =
     snd (completions_create (client this) (completion_params ti) (provider w))"
  by (cases "completions_create (client this) (completion_params ti) (provider w)")
     (simp add: completion_unfold console_error_def split: sum.splits)

lemma provider_getModels:
  "provider (snd (getModels this w)) = snd (models_list (client this) (provider w))"
  by (cases "models_list (client this) (provider w)")
     (simp add: getModels_unfold console_error_def split: sum.splits)

lemma issued_by_chat:
  "issued_by (chat \<lparr>client = recording c\<rparr> ci) w = [ChatRequest (chat_params ci)]"
  by (simp add: issued_by_def requests_def provider_chat recording_def split: prod.splits)

lemma issued_by_completion:
  "issued_by (completion \<lparr>client = recording c\<rparr> ti) w = [CompletionRequest (completion_params ti)]"
  by (simp add: issued_by_def requests_def provider_completion recording_def split: prod.splits)

lemma issued_by_getModels:
  "issued_by (getModels \<lparr>client = recording c\<rparr>) w = [ModelsRequest]"
  by (simp add: issued_by_def requests_def provider_getModels recording_def split: prod.splits)

section \<open>What is sent to the provider\<close>

text \<open>
  Claim C2. For every chat input without a model, the one request the service makes carries
  the model \<^verbatim>\<open>gpt-3.5-turbo\<close>; for every completion input without a model it carries
  \<^verbatim>\<open>gpt-3.5-turbo-instruct\<close>. In both operations a missing temperature is sent as 0.7 and
  a missing \<^verbatim>\<open>maxTokens\<close> as 1000. The client is any client at all, observed through
  \<open>recording\<close>.
\<close>

theorem defaults_sent_upstream:
  fixes c :: "'s OpenAI" and w :: "('s \<times> request list) world"
  shows
  "(ChatInput.model ci = None \<longrightarrow>
      map request_model (issued_by (chat \<lparr>client = recording c\<rparr> ci) w) = [Some ''gpt-3.5-turbo''])
   \<and> (CompletionInput.model ti = None \<longrightarrow>
      map request_model (issued_by (completion \<lparr>client = recording c\<rparr> ti) w)
        = [Some ''gpt-3.5-turbo-instruct''])
   \<and> (ChatInput.temperature ci = None \<longrightarrow>
      map request_temperature (issued_by (chat \<lparr>client = recording c\<rparr> ci) w) = [Some 0.7])
   \<and> (CompletionInput.temperature ti = None \<longrightarrow>
      map request_temperature (issued_by (completion \<lparr>client = recording c\<rparr> ti) w) = [Some 0.7])
   \<and> (ChatInput.maxTokens ci = None \<longrightarrow>
      map request_max_tokens (issued_by (chat \<lparr>client = recording c\<rparr> ci) w) = [Some 1000])
   \<and> (CompletionInput.maxTokens ti = None \<longrightarrow>
      map request_max_tokens (issued_by (completion \<lparr>client = recording c\<rparr> ti) w) = [Some 1000])"
  by (simp add: issued_by_chat issued_by_completion chat_params_def completion_params_def
        or_string_def or_number_def falsy_string_def falsy_number_def)

theorem defaults_sent_upstream_witness:
  "ChatInput.model hello = None \<and> ChatInput.temperature hello = None
   \<and> ChatInput.maxTokens hello = None
   \<and> CompletionInput.model once = None \<and> CompletionInput.temperature once = None
   \<and> CompletionInput.maxTokens once = None
   \<and> map request_model (issued_by (chat \<lparr>client = recording answering\<rparr> hello) start_recording)
        = [Some ''gpt-3.5-turbo'']
   \<and> map request_temperature (issued_by (chat \<lparr>client = recording answering\<rparr> hello) start_recording)
        = [Some 0.7]
   \<and> map request_max_tokens (issued_by (chat \<lparr>client = recording answering\<rparr> hello) start_recording)
        = [Some 1000]
   \<and> map request_model (issued_by (completion \<lparr>client = recording answering\<rparr> once) start_recording)
        = [Some ''gpt-3.5-turbo-instruct'']
   \<and> map request_temperature (issued_by (completion \<lparr>client = recording answering\<rparr> once) start_recording)
        = [Some 0.7]
   \<and> map request_max_tokens (issued_by (completion \<lparr>client = recording answering\<rparr> once) start_recording)
        = [Some 1000]"
  using defaults_sent_upstream [where ci = hello and ti = once and c = answering and w = start_recording]
  by (simp add: hello_def once_def)

text \<open>
  Claim C3. For every chat or completion input whose temperature is 0, the request does not
  carry 0: \<^verbatim>\<open>||\<close> takes 0 for a missing value, and the temperature sent is 0.7.
\<close>

theorem zero_temperature_replaced:
  fixes c :: "'s OpenAI" and w :: "('s \<times> request list) world"
  shows
  "(ChatInput.temperature ci = Some 0 \<longrightarrow>
      map request_temperature (issued_by (chat \<lparr>client = recording c\<rparr> ci) w) = [Some 0.7])
   \<and> (CompletionInput.temperature ti = Some 0 \<longrightarrow>
      map request_temperature (issued_by (completion \<lparr>client = recording c\<rparr> ti) w) = [Some 0.7])"
  by (simp add: issued_by_chat issued_by_completion chat_params_def completion_params_def
        or_number_def falsy_number_def)

theorem zero_temperature_replaced_witness:
  "ChatInput.temperature (hello\<lparr>ChatInput.temperature := Some 0\<rparr>) = Some 0
   \<and> CompletionInput.temperature (once\<lparr>CompletionInput.temperature := Some 0\<rparr>) = Some 0
   \<and> map request_temperature
         (issued_by (chat \<lparr>client = recording answering\<rparr>
            (hello\<lparr>ChatInput.temperature := Some 0\<rparr>)) start_recording) = [Some 0.7]
   \<and> map request_temperature
         (issued_by (completion \<lparr>client = recording answering\<rparr>
            (once\<lparr>CompletionInput.temperature := Some 0\<rparr>)) start_recording) = [Some 0.7]"
  using zero_temperature_replaced [where ci = "hello\<lparr>ChatInput.temperature := Some 0\<rparr>"
      and ti = "once\<lparr>CompletionInput.temperature := Some 0\<rparr>"
      and c = answering and w = start_recording]
  by simp

section \<open>Failures of the provider\<close>

text \<open>
  Claim C5. When the call to the provider throws, the operation throws an \<^verbatim>\<open>Error\<close> whose
  message is the prefix of the operation (\<^verbatim>\<open>Failed to generate chat response: \<close>,
  \<^verbatim>\<open>Failed to generate completion: \<close>, \<^verbatim>\<open>Failed to fetch models: \<close>) followed by the
  message of the thrown \<^verbatim>\<open>Error\<close>, or by \<^verbatim>\<open>Unknown error\<close> when the thrown value is no
  \<^verbatim>\<open>Error\<close>. The request is not repeated: the operation has issued exactly one.
\<close>

theorem provider_failure_wrapped:
  fixes c :: "'s OpenAI" and w :: "('s \<times> request list) world"
  shows
  "(fst (chat_completions_create c (chat_params ci) (fst (provider w))) = Inl e \<longrightarrow>
      fst (chat \<lparr>client = recording c\<rparr> ci w) =
        Inl (Error (''Failed to generate chat response: '' @
               (case e of Error m \<Rightarrow> m | NonError \<Rightarrow> ''Unknown error'')))
      \<and> issued_by (chat \<lparr>client = recording c\<rparr> ci) w = [ChatRequest (chat_params ci)])
   \<and> (fst (completions_create c (completion_params ti) (fst (provider w))) = Inl e \<longrightarrow>
      fst (completion \<lparr>client = recording c\<rparr> ti w) =
        Inl (Error (''Failed to generate completion: '' @
               (case e of Error m \<Rightarrow> m | NonError \<Rightarrow> ''Unknown error'')))
      \<and> issued_by (completion \<lparr>client = recording c\<rparr> ti) w =
            [CompletionRequest (completion_params ti)])
   \<and> (fst (models_list c (fst (provider w))) = Inl e \<longrightarrow>
      fst (getModels \<lparr>client = recording c\<rparr> w) =
        Inl (Error (''Failed to fetch models: '' @
               (case e of Error m \<Rightarrow> m | NonError \<Rightarrow> ''Unknown error'')))
      \<and> issued_by (getModels \<lparr>client = recording c\<rparr>) w = [ModelsRequest])"
proof -
  obtain s log where p: "provider w = (s, log)"
    by (cases "provider w")
  obtain r1 s1 where c1: "chat_completions_create c (chat_params ci) s = (r1, s1)"
    by (cases "chat_completions_create c (chat_params ci) s")
  obtain r2 s2 where c2: "completions_create c (completion_params ti) s = (r2, s2)"
    by (cases "completions_create c (completion_params ti) s")
  obtain r3 s3 where c3: "models_list c s = (r3, s3)"
    by (cases "models_list c s")
  have 1: "chat_completions_create (client \<lparr>client = recording c\<rparr>) (chat_params ci) (provider w)
             = (r1, (s1, log @ [ChatRequest (chat_params ci)]))"
    by (simp add: recording_def p c1)
  have 2: "completions_create (client \<lparr>client = recording c\<rparr>) (completion_params ti) (provider w)
             = (r2, (s2, log @ [CompletionRequest (completion_params ti)]))"
    by (simp add: recording_def p c2)
  have 3: "models_list (client \<lparr>client = recording c\<rparr>) (provider w)
             = (r3, (s3, log @ [ModelsRequest]))"
    by (simp add: recording_def p c3)
  show ?thesis
    by (simp add: issued_by_chat issued_by_completion issued_by_getModels
          chat_unfold [OF 1] completion_unfold [OF 2] getModels_unfold [OF 3]
          p c1 c2 c3 message_of_def)
qed

theorem provider_failure_wrapped_witness:
  "fst (chat_completions_create unreachable (chat_params hello) (fst (provider start_recording)))
     = Inl (Error ''Connection error.'')
   \<and> fst (chat \<lparr>client = recording unreachable\<rparr> hello start_recording)
     = Inl (Error ''Failed to generate chat response: Connection error.'')
   \<and> issued_by (chat \<lparr>client = recording unreachable\<rparr> hello) start_recording
     = [ChatRequest (chat_params hello)]
   \<and> fst (completions_create unreachable (completion_params once) (fst (provider start_recording)))
     = Inl (Error ''Connection error.'')
   \<and> fst (completion \<lparr>client = recording unreachable\<rparr> once start_recording)
     = Inl (Error ''Failed to generate completion: Connection error.'')
   \<and> issued_by (completion \<lparr>client = recording unreachable\<rparr> once) start_recording
     = [CompletionRequest (completion_params once)]
   \<and> fst (models_list unreachable (fst (provider start_recording))) = Inl NonError
   \<and> fst (getModels \<lparr>client = recording unreachable\<rparr> start_recording)
     = Inl (Error ''Failed to fetch models: Unknown error'')
   \<and> issued_by (getModels \<lparr>client = recording unreachable\<rparr>) start_recording
     = [ModelsRequest]"
  using
    provider_failure_wrapped [where c = unreachable and ci = hello and ti = once
      and w = start_recording and e = "Error ''Connection error.''"]
    provider_failure_wrapped [where c = unreachable and ci = hello and ti = once
      and w = start_recording and e = NonError]
  by (simp add: unreachable_def scripted_def)

text \<open>
  Claim C1, as stated, fails twice. The statement that throws \<^verbatim>\<open>No message in response\<close>
  stands inside the \<^verbatim>\<open>try\<close> block of \<^verbatim>\<open>chat\<close>, so the \<^verbatim>\<open>catch\<close> clause wraps it like a
  failure of the call: with a provider that answers with no choices, the message is not
  \<^verbatim>\<open>No message in response\<close>. And the field \<^verbatim>\<open>chat\<close> is declared non-null, so the response
  to the failed mutation does not hold a \<^verbatim>\<open>chat\<close> field that is \<^verbatim>\<open>null\<close>: its \<^verbatim>\<open>data\<close> is
  \<^verbatim>\<open>null\<close>.
\<close>

theorem chat_no_message_not_exact:
  "fst (chat \<lparr>client = scripted (Inr no_choices) (Inr empty_text) (Inr [])\<rparr> hello start) =
     Inl (Error ''Failed to generate chat response: No message in response'')
   \<and> fst (chat \<lparr>client = scripted (Inr no_choices) (Inr empty_text) (Inr [])\<rparr> hello start) \<noteq>
     Inl (Error ''No message in response'')
   \<and> data_entry (fst (execute_chat masked hello
        \<lparr>openai = \<lparr>client = scripted (Inr no_choices) (Inr empty_text) (Inr [])\<rparr>\<rparr> start)) =
     NullData
   \<and> data_entry (fst (execute_chat masked hello
        \<lparr>openai = \<lparr>client = scripted (Inr no_choices) (Inr empty_text) (Inr [])\<rparr>\<rparr> start)) \<noteq>
     FieldData None"
  by (simp add: execute_chat_def complete_root_field_def Mutation_chat_type_def
        Mutation_chat_def chat_def chat_try_def chat_result_def scripted_def no_choices_def
        start_def message_of_def)

lemma chat_result_no_message:
  "(case ChatCompletion.choices response of [] \<Rightarrow> True
    | choice # _ \<Rightarrow> ChatCompletionChoice.message choice = None) \<Longrightarrow>
   chat_result response = Inl (Error ''No message in response'')"
  by (simp add: chat_result_def split: list.splits)

lemma execute_chat_failed:
  assumes "fst (chat this ci w) = Inl error"
  shows "fst (execute_chat format ci \<lparr>openai = this\<rparr> w) =
           \<lparr>data_entry = NullData, errors_entry = [format error]\<rparr>"
  using assms
  by (cases "chat this ci w")
     (simp add: execute_chat_def Mutation_chat_def complete_root_field_def
        Mutation_chat_type_def)

text \<open>
  Claim C1, amended. For every chat call where the response of the provider has no choices,
  or a first choice without a message, \<^verbatim>\<open>chat\<close> throws an \<^verbatim>\<open>Error\<close> whose message is
  \<^verbatim>\<open>Failed to generate chat response: No message in response\<close>, the wrapped form of every
  other failure, and the GraphQL response holds \<^verbatim>\<open>data\<close> that is \<^verbatim>\<open>null\<close>, the field \<^verbatim>\<open>chat\<close>
  being non-null, next to a list \<^verbatim>\<open>errors\<close> with one entry, made from that error.
\<close>

theorem chat_no_message_wrapped:
  assumes "chat_completions_create (client this) (chat_params ci) (provider w) = (Inr response, p)"
    and "case ChatCompletion.choices response of [] \<Rightarrow> True
         | choice # _ \<Rightarrow> ChatCompletionChoice.message choice = None"
  shows "fst (chat this ci w) =
           Inl (Error ''Failed to generate chat response: No message in response'')
         \<and> data_entry (fst (execute_chat format ci \<lparr>openai = this\<rparr> w)) = NullData
         \<and> errors_entry (fst (execute_chat format ci \<lparr>openai = this\<rparr> w)) =
             [format (Error ''Failed to generate chat response: No message in response'')]
         \<and> errors_entry (fst (execute_chat format ci \<lparr>openai = this\<rparr> w)) \<noteq> []"
proof -
  have failed: "fst (chat this ci w) =
      Inl (Error ''Failed to generate chat response: No message in response'')"
    using assms(2)
    by (simp add: chat_unfold [OF assms(1)] chat_result_no_message message_of_def)
  show ?thesis
    by (simp add: failed execute_chat_failed [OF failed])
qed

theorem chat_no_message_wrapped_witness:
  "chat_completions_create (client \<lparr>client = scripted (Inr no_choices) (Inr empty_text) (Inr [])\<rparr>)
     (chat_params hello) (provider start) = (Inr no_choices, 1)
   \<and> (case ChatCompletion.choices no_choices of [] \<Rightarrow> True
       | choice # _ \<Rightarrow> ChatCompletionChoice.message choice = None)
   \<and> fst (chat \<lparr>client = scripted (Inr no_choices) (Inr empty_text) (Inr [])\<rparr> hello start) =
         Inl (Error ''Failed to generate chat response: No message in response'')
   \<and> fst (execute_chat masked hello
            \<lparr>openai = \<lparr>client = scripted (Inr no_choices) (Inr empty_text) (Inr [])\<rparr>\<rparr> start) =
         \<lparr>data_entry = NullData, errors_entry = [''Unexpected error.'']\<rparr>"
proof -
  have a: "chat_completions_create
             (client \<lparr>client = scripted (Inr no_choices) (Inr empty_text) (Inr [])\<rparr>)
             (chat_params hello) (provider start) = (Inr no_choices, 1)"
    by (simp add: scripted_def start_def)
  have b: "case ChatCompletion.choices no_choices of [] \<Rightarrow> True
       | choice # _ \<Rightarrow> ChatCompletionChoice.message choice = None"
    by (simp add: no_choices_def)
  have "r = \<lparr>data_entry = data_entry r, errors_entry = errors_entry r\<rparr>" for r :: "ChatResponse ExecutionResult"
    by simp
  then show ?thesis
    using a b chat_no_message_wrapped [OF a b, of masked]
    by (simp add: masked_def)
qed

section \<open>Results of the operations\<close>

text \<open>
  Claim C4. When the provider answers a completion request and the text of the first choice
  is the empty string, \<^verbatim>\<open>completion\<close> succeeds and the text of its result is the empty
  string. Given an answer of the provider, \<^verbatim>\<open>completion\<close> fails exactly when the first
  choice has no text (or there is no first choice, where \<^verbatim>\<open>?.\<close> yields \<^verbatim>\<open>undefined\<close> too).
\<close>

theorem completion_empty_text_succeeds:
  assumes "completions_create (client this) (completion_params ti) (provider w) = (Inr response, p)"
  shows "(\<forall>choice rest.
            Completion.choices response = choice # rest \<and> CompletionChoice.text choice = Some ''''
            \<longrightarrow> (\<exists>result. fst (completion this ti w) = Inr result
                    \<and> CompletionResponse.text result = ''''))
         \<and> (isl (fst (completion this ti w)) \<longleftrightarrow>
              (case Completion.choices response of [] \<Rightarrow> True
               | choice # _ \<Rightarrow> CompletionChoice.text choice = None))"
  by (auto simp add: completion_unfold [OF assms] completion_result_def
        split: list.splits option.splits)

theorem completion_empty_text_succeeds_witness:
  "completions_create (client \<lparr>client = answering\<rparr>) (completion_params once) (provider start)
     = (Inr empty_text, 1)
   \<and> Completion.choices empty_text = [\<lparr>CompletionChoice.text = Some ''''\<rparr>]
   \<and> (\<exists>result. fst (completion \<lparr>client = answering\<rparr> once start) = Inr result
         \<and> CompletionResponse.text result = '''')
   \<and> \<not> isl (fst (completion \<lparr>client = answering\<rparr> once start))
   \<and> completions_create (client \<lparr>client = scripted (Inr hi_there) (Inr no_text) (Inr [])\<rparr>)
         (completion_params once) (provider start) = (Inr no_text, 1)
   \<and> Completion.choices no_text = [\<lparr>CompletionChoice.text = None\<rparr>]
   \<and> isl (fst (completion \<lparr>client = scripted (Inr hi_there) (Inr no_text) (Inr [])\<rparr> once start))"
proof -
  have a: "completions_create (client \<lparr>client = answering\<rparr>) (completion_params once)
             (provider start) = (Inr empty_text, 1)"
    by (simp add: answering_def scripted_def start_def)
  have b: "Completion.choices empty_text = [\<lparr>CompletionChoice.text = Some ''''\<rparr>]"
    by (simp add: empty_text_def)
  have c: "completions_create (client \<lparr>client = scripted (Inr hi_there) (Inr no_text) (Inr [])\<rparr>)
             (completion_params once) (provider start) = (Inr no_text, 1)"
    by (simp add: scripted_def start_def)
  have d: "Completion.choices no_text = [\<lparr>CompletionChoice.text = None\<rparr>]"
    by (simp add: no_text_def)
  show ?thesis
    using a b c d completion_empty_text_succeeds [OF a] completion_empty_text_succeeds [OF c]
    by simp
qed

text \<open>
  Claim C6. In every result of \<^verbatim>\<open>chat\<close> and of \<^verbatim>\<open>completion\<close>: when the response of the
  provider has a usage, the fields \<^verbatim>\<open>promptTokens\<close>, \<^verbatim>\<open>completionTokens\<close> and
  \<^verbatim>\<open>totalTokens\<close> of the result are its \<^verbatim>\<open>prompt_tokens\<close>, \<^verbatim>\<open>completion_tokens\<close> and
  \<^verbatim>\<open>total_tokens\<close>, unchanged; when the response has no usage, the result has none.
\<close>

theorem usage_renamed:
  "(chat_completions_create (client this) (chat_params ci) (provider w) = (Inr response, p)
      \<and> fst (chat this ci w) = Inr result \<longrightarrow>
    ChatResponse.usage result =
      (case ChatCompletion.usage response of
         None \<Rightarrow> None
       | Some u \<Rightarrow> Some \<lparr>promptTokens = prompt_tokens u,
                         completionTokens = completion_tokens u,
                         totalTokens = total_tokens u\<rparr>))
   \<and> (completions_create (client this) (completion_params ti) (provider w) = (Inr response', p')
      \<and> fst (completion this ti w) = Inr result' \<longrightarrow>
    CompletionResponse.usage result' =
      (case Completion.usage response' of
         None \<Rightarrow> None
       | Some u \<Rightarrow> Some \<lparr>promptTokens = prompt_tokens u,
                         completionTokens = completion_tokens u,
                         totalTokens = total_tokens u\<rparr>))"
proof -
  have 1: "ChatResponse.usage result = map_usage (ChatCompletion.usage response)"
    if "chat_completions_create (client this) (chat_params ci) (provider w) = (Inr response, p)"
      and "fst (chat this ci w) = Inr result"
    using that(2) by (auto simp add: chat_unfold [OF that(1)] chat_result_def
        split: list.splits option.splits sum.splits)
  have 2: "CompletionResponse.usage result' = map_usage (Completion.usage response')"
    if "completions_create (client this) (completion_params ti) (provider w) = (Inr response', p')"
      and "fst (completion this ti w) = Inr result'"
    using that(2) by (auto simp add: completion_unfold [OF that(1)] completion_result_def
        split: list.splits option.splits sum.splits)
  show ?thesis using 1 2 by (simp add: map_usage_def)
qed

theorem usage_renamed_witness:
  "chat_completions_create (client \<lparr>client = answering\<rparr>) (chat_params hello) (provider start)
     = (Inr hi_there, 1)
   \<and> fst (chat \<lparr>client = answering\<rparr> hello start) =
       Inr \<lparr>ChatResponse.message =
              \<lparr>ChatMessage.role = ''assistant'', ChatMessage.content = ''Hi there''\<rparr>,
            ChatResponse.model = ''gpt-3.5-turbo'',
            ChatResponse.usage =
              Some \<lparr>promptTokens = 5, completionTokens = 3, totalTokens = 8\<rparr>\<rparr>
   \<and> ChatCompletion.usage hi_there =
       Some \<lparr>prompt_tokens = 5, completion_tokens = 3, total_tokens = 8\<rparr>
   \<and> completions_create (client \<lparr>client = answering\<rparr>) (completion_params once) (provider start)
     = (Inr empty_text, 1)
   \<and> fst (completion \<lparr>client = answering\<rparr> once start) =
       Inr \<lparr>CompletionResponse.text = '''',
            CompletionResponse.model = ''gpt-3.5-turbo-instruct'',
            CompletionResponse.usage = None\<rparr>
   \<and> Completion.usage empty_text = None"
proof -
  have a: "chat_completions_create (client \<lparr>client = answering\<rparr>) (chat_params hello)
             (provider start) = (Inr hi_there, 1)"
    by (simp add: answering_def scripted_def start_def)
  have b: "completions_create (client \<lparr>client = answering\<rparr>) (completion_params once)
             (provider start) = (Inr empty_text, 1)"
    by (simp add: answering_def scripted_def start_def)
  obtain result where r: "fst (chat \<lparr>client = answering\<rparr> hello start) = Inr result"
    and r1: "ChatResponse.message result =
               \<lparr>ChatMessage.role = ''assistant'', ChatMessage.content = ''Hi there''\<rparr>"
    and r2: "ChatResponse.model result = ''gpt-3.5-turbo''"
    by (simp add: chat_unfold [OF a] chat_result_def hi_there_def or_string_def falsy_string_def)
  obtain result' where s: "fst (completion \<lparr>client = answering\<rparr> once start) = Inr result'"
    and s1: "CompletionResponse.text result' = ''''"
    and s2: "CompletionResponse.model result' = ''gpt-3.5-turbo-instruct''"
    by (simp add: completion_unfold [OF b] completion_result_def empty_text_def)
  have u: "ChatCompletion.usage hi_there =
             Some \<lparr>prompt_tokens = 5, completion_tokens = 3, total_tokens = 8\<rparr>"
    by (simp add: hi_there_def)
  have v: "Completion.usage empty_text = None"
    by (simp add: empty_text_def)
  from usage_renamed [where this = "\<lparr>client = answering\<rparr>" and ci = hello and ti = once
      and w = start and response = hi_there and p = 1 and result = result
      and response' = empty_text and p' = 1 and result' = result'] a b r s u v
  have "ChatResponse.usage result =
          Some \<lparr>promptTokens = 5, completionTokens = 3, totalTokens = 8\<rparr>"
    and "CompletionResponse.usage result' = None"
    by simp_all
  with r1 r2 s1 s2 have "result = \<lparr>ChatResponse.message =
              \<lparr>ChatMessage.role = ''assistant'', ChatMessage.content = ''Hi there''\<rparr>,
            ChatResponse.model = ''gpt-3.5-turbo'',
            ChatResponse.usage =
              Some \<lparr>promptTokens = 5, completionTokens = 3, totalTokens = 8\<rparr>\<rparr>"
    and "result' = \<lparr>CompletionResponse.text = '''',
            CompletionResponse.model = ''gpt-3.5-turbo-instruct'',
            CompletionResponse.usage = None\<rparr>"
    by simp_all
  with a b r s u v show ?thesis by simp
qed

section \<open>The handler\<close>

lemma preflight_response:
  "new_Response None 204 corsHeaders =
     \<lparr>Response.status = 204,
      Response.headers =
        [(''access-control-allow-origin'', ''*''),
         (''access-control-allow-methods'', ''GET, POST, OPTIONS''),
         (''access-control-allow-headers'', ''Content-Type, Authorization'')],
      Response.body = None\<rparr>"
  by (simp add: new_Response_def corsHeaders_def new_Headers_def Headers_append_def
        Headers_get_def lower_char_def)

lemma error_response:
  "new_Response b 500 ((''Content-Type'', ''application/json'') # corsHeaders) =
     \<lparr>Response.status = 500,
      Response.headers =
        [(''content-type'', ''application/json''),
         (''access-control-allow-origin'', ''*''),
         (''access-control-allow-methods'', ''GET, POST, OPTIONS''),
         (''access-control-allow-headers'', ''Content-Type, Authorization'')],
      Response.body = b\<rparr>"
  by (simp add: new_Response_def corsHeaders_def new_Headers_def Headers_append_def
        Headers_get_def lower_char_def)

text \<open>
  Past the preflight test and with a service built, the handler hands the request to the
  GraphQL server with the options of \<open>yoga_options\<close>, and answers with what the server
  returns, the three headers set on it, or with the error response when the server throws.
\<close>

lemma fetch_runs_yoga:
  assumes "Request.method request \<noteq> ''OPTIONS''"
    and "createOpenAIService new_OpenAI env = Inr service"
  shows "fetch new_OpenAI yoga request env w =
     (case yoga (yoga_options service env) request \<lparr>openai = service\<rparr> w of
        (Inr response, w') \<Rightarrow> (add_cors response, w')
      | (Inl error, w') \<Rightarrow>
          (new_Response
             (Some (JSON_stringify
                [(''error'', ''Internal Server Error''), (''message'', message_of error)]))
             500 ((''Content-Type'', ''application/json'') # corsHeaders),
           console_error ''Worker Error:'' error w'))"
  using assms by (simp add: fetch_def fetch_try_def split: prod.splits sum.splits)

text \<open>
  Claim C7. For every request whose method is \<^verbatim>\<open>OPTIONS\<close> the handler answers with status
  204, no body and the three headers \<^verbatim>\<open>Access-Control-Allow-Origin: *\<close>,
  \<^verbatim>\<open>Access-Control-Allow-Methods: GET, POST, OPTIONS\<close> and
  \<^verbatim>\<open>Access-Control-Allow-Headers: Content-Type, Authorization\<close>. The answer is the same
  whatever the environment holds and whatever building the client or running the GraphQL
  server would do, and the world is left as it was: neither is built or run.
\<close>

theorem preflight_answered:
  assumes "Request.method request = ''OPTIONS''"
  shows "fetch new_OpenAI yoga request env w =
           (\<lparr>Response.status = 204,
             Response.headers =
               [(''access-control-allow-origin'', ''*''),
                (''access-control-allow-methods'', ''GET, POST, OPTIONS''),
                (''access-control-allow-headers'', ''Content-Type, Authorization'')],
             Response.body = None\<rparr>, w)
         \<and> Headers_get (Response.headers (fst (fetch new_OpenAI yoga request env w)))
               ''Access-Control-Allow-Origin'' = Some ''*''
         \<and> Headers_get (Response.headers (fst (fetch new_OpenAI yoga request env w)))
               ''Access-Control-Allow-Methods'' = Some ''GET, POST, OPTIONS''
         \<and> Headers_get (Response.headers (fst (fetch new_OpenAI yoga request env w)))
               ''Access-Control-Allow-Headers'' = Some ''Content-Type, Authorization''"
proof -
  have "fetch new_OpenAI yoga request env w = (new_Response None 204 corsHeaders, w)"
    using assms by (simp add: fetch_def)
  then show ?thesis
    by (simp add: preflight_response Headers_get_def lower_char_def)
qed

theorem preflight_answered_witness:
  "Request.method preflight = ''OPTIONS''
   \<and> OPENAI_API_KEY no_credential = None
   \<and> fetch refusing yoga_down preflight no_credential start =
       (\<lparr>Response.status = 204,
         Response.headers =
           [(''access-control-allow-origin'', ''*''),
            (''access-control-allow-methods'', ''GET, POST, OPTIONS''),
            (''access-control-allow-headers'', ''Content-Type, Authorization'')],
         Response.body = None\<rparr>, start)
   \<and> Headers_get (Response.headers (fst (fetch refusing yoga_down preflight no_credential start)))
         ''Access-Control-Allow-Origin'' = Some ''*''"
proof -
  have a: "Request.method preflight = ''OPTIONS''"
    by (simp add: preflight_def)
  have b: "OPENAI_API_KEY no_credential = None"
    by (simp add: no_credential_def)
  show ?thesis
    using a b preflight_answered [OF a, of refusing yoga_down no_credential start]
    by (simp add: Headers_get_def lower_char_def)
qed

text \<open>
  Claim C8. For every request other than a preflight, when building the service throws an
  \<^verbatim>\<open>Error\<close> the handler answers with status 500, the three CORS headers (and the content
  type) and the body \<^verbatim>\<open>JSON.stringify({error: 'Internal Server Error', message})\<close> with the
  message of that error. Building the service throws
  \<^verbatim>\<open>OPENAI_API_KEY is not configured\<close> when the key is missing or empty.
\<close>

theorem construction_failure_500:
  assumes "Request.method request \<noteq> ''OPTIONS''"
  shows "(createOpenAIService new_OpenAI env = Inl (Error m) \<longrightarrow>
            fst (fetch new_OpenAI yoga request env w) =
              \<lparr>Response.status = 500,
               Response.headers =
                 [(''content-type'', ''application/json''),
                  (''access-control-allow-origin'', ''*''),
                  (''access-control-allow-methods'', ''GET, POST, OPTIONS''),
                  (''access-control-allow-headers'', ''Content-Type, Authorization'')],
               Response.body =
                 Some (JSON_stringify
                   [(''error'', ''Internal Server Error''), (''message'', m)])\<rparr>)
         \<and> (OPENAI_API_KEY env = None \<or> OPENAI_API_KEY env = Some '''' \<longrightarrow>
            createOpenAIService new_OpenAI env = Inl (Error ''OPENAI_API_KEY is not configured''))"
  using assms
  by (simp add: fetch_def fetch_try_def error_response message_of_def createOpenAIService_def
        falsy_string_def split: option.splits)

theorem construction_failure_500_witness:
  \<open>Request.method health_query \<noteq> ''OPTIONS''
   \<and> OPENAI_API_KEY no_credential = None
   \<and> createOpenAIService connecting no_credential = Inl (Error ''OPENAI_API_KEY is not configured'')
   \<and> fst (fetch connecting yoga_down health_query no_credential start) =
       \<lparr>Response.status = 500,
        Response.headers =
          [(''content-type'', ''application/json''),
           (''access-control-allow-origin'', ''*''),
           (''access-control-allow-methods'', ''GET, POST, OPTIONS''),
           (''access-control-allow-headers'', ''Content-Type, Authorization'')],
        Response.body =
          Some ''{"error":"Internal Server Error","message":"OPENAI_API_KEY is not configured"}''\<rparr>\<close>
proof -
  have a: "Request.method health_query \<noteq> ''OPTIONS''"
    by (simp add: health_query_def)
  have b: "OPENAI_API_KEY no_credential = None"
    by (simp add: no_credential_def)
  have j: \<open>JSON_stringify
             [(''error'', ''Internal Server Error''),
              (''message'', ''OPENAI_API_KEY is not configured'')] =
           ''{"error":"Internal Server Error","message":"OPENAI_API_KEY is not configured"}''\<close>
    by (simp add: JSON_stringify_def JSON_quote_def JSON_quote_char_def)
  show ?thesis
    using a b j
      construction_failure_500 [OF a, of connecting no_credential
        "''OPENAI_API_KEY is not configured''" yoga_down start]
    by simp
qed

text \<open>
  Claim C9. The resolver of \<^verbatim>\<open>health\<close> returns the string \<^verbatim>\<open>OK\<close> for every context and
  every state of the world, and leaves the world as it was; in particular no request to the
  provider is issued.
\<close>

theorem health_ok:
  "Query_health ctx w = (Inr ''OK'', w) \<and> issued_by (Query_health ctx') w' = []"
  by (simp add: Query_health_def issued_by_def)

text \<open>
  Claim C10, as stated, fails: with the marker \<^verbatim>\<open>ENVIRONMENT\<close> present and empty, which is
  neither \<^verbatim>\<open>development\<close> nor absent, \<^verbatim>\<open>!env.ENVIRONMENT\<close> holds and the console is enabled.
\<close>

theorem graphiql_enabled_for_empty_marker:
  "graphiql (yoga_options \<lparr>client = answering\<rparr> empty_marker)
   \<and> ENVIRONMENT empty_marker \<noteq> Some ''development''
   \<and> ENVIRONMENT empty_marker \<noteq> None"
  by (simp add: yoga_options_def empty_marker_def falsy_string_def)

text \<open>
  Claim C10, amended. The option \<^verbatim>\<open>graphiql\<close> given to the GraphQL server is true exactly when
  the marker \<^verbatim>\<open>ENVIRONMENT\<close> equals \<^verbatim>\<open>development\<close>, is absent, or is the empty string; so
  the console stays enabled without a marker, and for every other, non-empty value it is
  disabled.
\<close>

theorem graphiql_enabled_iff:
  "graphiql (yoga_options service env) \<longleftrightarrow>
     ENVIRONMENT env = Some ''development'' \<or> ENVIRONMENT env = None
     \<or> ENVIRONMENT env = Some ''''"
  by (auto simp add: yoga_options_def falsy_string_def split: option.splits)

theorem graphiql_enabled_iff_witness:
  "graphiql (yoga_options \<lparr>client = answering\<rparr> no_credential)
   \<and> graphiql (yoga_options \<lparr>client = answering\<rparr> (no_credential\<lparr>ENVIRONMENT := Some ''development''\<rparr>))
   \<and> graphiql (yoga_options \<lparr>client = answering\<rparr> empty_marker)
   \<and> \<not> graphiql (yoga_options \<lparr>client = answering\<rparr> (no_credential\<lparr>ENVIRONMENT := Some ''production''\<rparr>))"
  using graphiql_enabled_iff [of "\<lparr>client = answering\<rparr>" no_credential]
    graphiql_enabled_iff [of "\<lparr>client = answering\<rparr>" "no_credential\<lparr>ENVIRONMENT := Some ''development''\<rparr>"]
    graphiql_enabled_iff [of "\<lparr>client = answering\<rparr>" empty_marker]
    graphiql_enabled_iff [of "\<lparr>client = answering\<rparr>" "no_credential\<lparr>ENVIRONMENT := Some ''production''\<rparr>"]
  by (simp add: no_credential_def empty_marker_def)

end
